theory Spec2Isabelle
  imports Main "HOL-Library.Sublist"
begin

section \<open>The launchpad session settings bar\<close>

text \<open>
  The source file \<^verbatim>\<open>launchpad/SessionSettingsBar.tsx\<close> exports one constant: the
  result of the tagged template call \<^verbatim>\<open>styled.div`...`\<close>, whose template has three
  static pieces and two interpolations, \<^verbatim>\<open>${Colors.Gray200}\<close> and
  \<^verbatim>\<open>${Colors.White}\<close>.
\<close>

subsection \<open>The palette\<close>

text \<open>
  \<^verbatim>\<open>Colors\<close> is imported from \<^verbatim>\<open>@dagster-io/ui-components\<close>, which is not part of
  this file, so the palette is a parameter. The file reads two of its members; the
  record is extensible, and the \<open>more\<close> part of a \<open>Colors_scheme\<close> stands for every other
  token of the palette.
\<close>

record Colors =
  Gray200 :: string
  White :: string

subsection \<open>The tagged template\<close>

text \<open>
  A tagged template call passes its tag the static pieces of the template and the
  \<^emph>\<open>values\<close> of the interpolated expressions, evaluated when the call is evaluated.
  The tag \<^verbatim>\<open>styled.div\<close> keeps them interleaved, as the rules of a component that
  renders a \<^verbatim>\<open>div\<close>. Both interpolations here are strings (none is a function of the
  props), so the rules are a list of strings.
\<close>

fun interleave :: "string list \<Rightarrow> string list \<Rightarrow> string list" where
  "interleave [] vs = []"
| "interleave (s # ss) [] = [s]"
| "interleave (s # ss) (v # vs) = s # v # interleave ss vs"

record styled_component =
  target :: string
  rules :: "string list"

definition styled_div :: "string list \<Rightarrow> string list \<Rightarrow> styled_component" where
  "styled_div strings interpolations =
     \<lparr>target = ''div'', rules = interleave strings interpolations\<rparr>"

text \<open>The three static pieces of the template, line breaks and indentation included.\<close>

definition template_strings :: "string list" where
  "template_strings =
     [''\<newline>  color: white;\<newline>  display: flex;\<newline>  position: relative;\<newline>  border-bottom: 1px solid '',
      '';\<newline>  background: '',
      '';\<newline>  align-items: center;\<newline>  height: 47px;\<newline>  padding: 8px 10px;\<newline>'']"

definition SessionSettingsBar :: "'a Colors_scheme \<Rightarrow> styled_component" where
  "SessionSettingsBar colors =
     styled_div template_strings [Gray200 colors, White colors]"

text \<open>The style text of a component: its rules joined.\<close>

definition css_text :: "styled_component \<Rightarrow> string" where
  "css_text sc = concat (rules sc)"

subsection \<open>Reading the declarations of a style text\<close>

text \<open>
  A style text without nested blocks is a list of declarations separated by
  semicolons; a declaration is a property name and a value separated by the first
  colon, both with the surrounding white space removed. A piece with no colon or
  with an empty property name is not a declaration and is dropped.
\<close>

fun split_on :: "char \<Rightarrow> string \<Rightarrow> string list" where
  "split_on sep [] = [[]]"
| "split_on sep (x # xs) =
     (if x = sep then [] # split_on sep xs
      else (case split_on sep xs of
              [] \<Rightarrow> [[x]]
            | p # ps \<Rightarrow> (x # p) # ps))"

definition is_space :: "char \<Rightarrow> bool" where
  "is_space ch = (ch = CHR '' '' \<or> ch = CHR ''\<newline>'' \<or> ch = CHR 0x09 \<or> ch = CHR 0x0D \<or> ch = CHR 0x0C)"

definition trim :: "string \<Rightarrow> string" where
  "trim s = dropWhile is_space (rev (dropWhile is_space (rev s)))"

definition declaration_of :: "string \<Rightarrow> (string \<times> string) option" where
  "declaration_of piece =
     (case dropWhile (\<lambda>ch. ch \<noteq> CHR '':'') piece of
        [] \<Rightarrow> None
      | colon # rest \<Rightarrow>
          (let property = trim (takeWhile (\<lambda>ch. ch \<noteq> CHR '':'') piece) in
           if property = [] then None else Some (property, trim rest)))"

definition declarations :: "string \<Rightarrow> (string \<times> string) list" where
  "declarations s = List.map_filter declaration_of (split_on CHR '';'' s)"

text \<open>
  Of several declarations of one property the last one applies; a property that is
  not declared has no declared value.
\<close>

definition declared :: "(string \<times> string) list \<Rightarrow> string \<Rightarrow> string option" where
  "declared decls property = map_of (rev decls) property"

text \<open>
  A palette token is usable as a value inside a declaration when it is not empty, has
  no white space at either end, and contains neither a semicolon nor a brace.
\<close>

definition css_token :: "string \<Rightarrow> bool" where
  "css_token s =
     (s \<noteq> [] \<and> \<not> is_space (hd s) \<and> \<not> is_space (last s) \<and>
      list_all (\<lambda>ch. ch \<noteq> CHR '';'' \<and> ch \<noteq> CHR ''{'' \<and> ch \<noteq> CHR ''}'') s)"

definition palette_ok :: "'a Colors_scheme \<Rightarrow> bool" where
  "palette_ok colors = (css_token (Gray200 colors) \<and> css_token (White colors))"

subsection \<open>Rendering\<close>

text \<open>
  Rendering the component gives an element of the component's target with the
  style that the component's template declares and the children it was given. The
  rule that the library emits for this style is the subject of a later section.
\<close>

record 'c element =
  tag :: string
  style :: "(string \<times> string) list"
  children :: "'c list"

definition render :: "styled_component \<Rightarrow> 'c list \<Rightarrow> 'c element" where
  "render sc kids =
     \<lparr>tag = target sc, style = declarations (css_text sc), children = kids\<rparr>"

subsection \<open>Reading the values of declarations\<close>

text \<open>
  A length in whole pixels is a non-empty run of decimal digits followed by \<^verbatim>\<open>px\<close>.
\<close>

definition is_digit :: "char \<Rightarrow> bool" where
  "is_digit ch = (ch \<in> set ''0123456789'')"

definition px_length :: "string \<Rightarrow> nat option" where
  "px_length v =
     (let ds = takeWhile is_digit v in
      if ds \<noteq> [] \<and> dropWhile is_digit v = ''px''
      then Some (foldl (\<lambda>n ch. 10 * n + (of_char ch - of_char CHR ''0'')) 0 ds)
      else None)"

definition words_of :: "string \<Rightarrow> string list" where
  "words_of v = filter (\<lambda>w. w \<noteq> []) (split_on CHR '' '' v)"

text \<open>
  The \<^verbatim>\<open>padding\<close> shorthand takes one to four lengths: one for all four sides; two
  for top and bottom, then left and right; three for top, then left and right, then
  bottom; four for top, right, bottom and left.
\<close>

record box =
  box_top :: nat
  box_right :: nat
  box_bottom :: nat
  box_left :: nat

definition box_of :: "string \<Rightarrow> box option" where
  "box_of v =
     (case those (map px_length (words_of v)) of
        Some [a] \<Rightarrow> Some \<lparr>box_top = a, box_right = a, box_bottom = a, box_left = a\<rparr>
      | Some [a, b] \<Rightarrow> Some \<lparr>box_top = a, box_right = b, box_bottom = a, box_left = b\<rparr>
      | Some [a, b, c] \<Rightarrow> Some \<lparr>box_top = a, box_right = b, box_bottom = c, box_left = b\<rparr>
      | Some [a, b, c, d] \<Rightarrow> Some \<lparr>box_top = a, box_right = b, box_bottom = c, box_left = d\<rparr>
      | _ \<Rightarrow> None)"

definition padding_of :: "(string \<times> string) list \<Rightarrow> box option" where
  "padding_of decls = Option.bind (declared decls ''padding'') box_of"

definition height_of :: "(string \<times> string) list \<Rightarrow> nat option" where
  "height_of decls = Option.bind (declared decls ''height'') px_length"

text \<open>The main axis of a flex container is the row unless a direction is declared.\<close>

definition flex_direction :: "(string \<times> string) list \<Rightarrow> string" where
  "flex_direction decls =
     (case declared decls ''flex-direction'' of None \<Rightarrow> ''row'' | Some v \<Rightarrow> v)"

text \<open>
  An element is the positioning context of its absolutely positioned children when
  its position is declared and is not \<^verbatim>\<open>static\<close>. It is moved from its place in the
  flow only by the offsets declared for it.
\<close>

definition positioning_context :: "(string \<times> string) list \<Rightarrow> bool" where
  "positioning_context decls =
     (case declared decls ''position'' of None \<Rightarrow> False | Some v \<Rightarrow> v \<noteq> ''static'')"

definition offsets :: "(string \<times> string) list \<Rightarrow> string option list" where
  "offsets decls = map (declared decls) [''top'', ''right'', ''bottom'', ''left'', ''inset'']"

subsection \<open>Hexadecimal colours\<close>





subsection \<open>The emitted rule\<close>







subsection \<open>The palette of the specification's example\<close>

definition example_palette :: Colors where
  "example_palette = \<lparr>Gray200 = ''#B8C1CC'', White = ''#FFFFFF''\<rparr>"

section \<open>The style text and its declarations\<close>

lemma css_text_SessionSettingsBar:
  "css_text (SessionSettingsBar colors) =
     ''\<newline>  color: white;\<newline>  display: flex;\<newline>  position: relative;\<newline>  border-bottom: 1px solid ''
     @ Gray200 colors @ '';\<newline>  background: '' @ White colors
     @ '';\<newline>  align-items: center;\<newline>  height: 47px;\<newline>  padding: 8px 10px;\<newline>''"
  by (simp add: css_text_def SessionSettingsBar_def styled_div_def template_strings_def)

lemma split_on_append:
  "sep \<notin> set xs \<Longrightarrow> split_on sep (xs @ sep # ys) = xs # split_on sep ys"
  by (induction xs) auto

lemma split_on_SessionSettingsBar:
  assumes "CHR '';'' \<notin> set (Gray200 colors)" and "CHR '';'' \<notin> set (White colors)"
  shows "split_on CHR '';'' (css_text (SessionSettingsBar colors)) =
     [''\<newline>  color: white'', ''\<newline>  display: flex'', ''\<newline>  position: relative'',
      ''\<newline>  border-bottom: 1px solid '' @ Gray200 colors,
      ''\<newline>  background: '' @ White colors,
      ''\<newline>  align-items: center'', ''\<newline>  height: 47px'', ''\<newline>  padding: 8px 10px'',
      ''\<newline>'']"
  using assms by (simp add: css_text_SessionSettingsBar split_on_append)

lemma dropWhile_hd: "s \<noteq> [] \<Longrightarrow> \<not> P (hd s) \<Longrightarrow> dropWhile P s = s"
  by (cases s) auto

lemma trim_append_token:
  assumes "s \<noteq> []" and "\<not> is_space (last s)"
  shows "trim (xs @ s) = dropWhile is_space (xs @ s)"
proof -
  have "dropWhile is_space (rev (xs @ s)) = rev (xs @ s)"
    using assms by (intro dropWhile_hd) (simp_all add: hd_append hd_rev)
  then show ?thesis by (simp add: trim_def)
qed

lemma declarations_SessionSettingsBar:
  assumes "palette_ok colors"
  shows "declarations (css_text (SessionSettingsBar colors)) =
     [(''color'', ''white''), (''display'', ''flex''), (''position'', ''relative''),
      (''border-bottom'', ''1px solid '' @ Gray200 colors),
      (''background'', White colors),
      (''align-items'', ''center''), (''height'', ''47px''), (''padding'', ''8px 10px'')]"
proof -
  from assms have g: "Gray200 colors \<noteq> []" "\<not> is_space (last (Gray200 colors))"
    "CHR '';'' \<notin> set (Gray200 colors)"
    and w: "White colors \<noteq> []" "\<not> is_space (hd (White colors))"
    "\<not> is_space (last (White colors))" "CHR '';'' \<notin> set (White colors)"
    by (auto simp: palette_ok_def css_token_def list_all_iff)
  have b: "declaration_of (''\<newline>  border-bottom: 1px solid '' @ Gray200 colors) =
      Some (''border-bottom'', ''1px solid '' @ Gray200 colors)"
    using g trim_append_token [of "Gray200 colors" "'' 1px solid ''"]
    by (simp add: declaration_of_def) (simp add: trim_def is_space_def)
  have k: "declaration_of (''\<newline>  background: '' @ White colors) =
      Some (''background'', White colors)"
    using w trim_append_token [of "White colors" "'' ''"]
      dropWhile_hd [of "White colors" is_space]
    by (simp add: declaration_of_def) (simp add: trim_def is_space_def)
  have l: "declaration_of ''\<newline>  color: white'' = Some (''color'', ''white'')"
    "declaration_of ''\<newline>  display: flex'' = Some (''display'', ''flex'')"
    "declaration_of ''\<newline>  position: relative'' = Some (''position'', ''relative'')"
    "declaration_of ''\<newline>  align-items: center'' = Some (''align-items'', ''center'')"
    "declaration_of ''\<newline>  height: 47px'' = Some (''height'', ''47px'')"
    "declaration_of ''\<newline>  padding: 8px 10px'' = Some (''padding'', ''8px 10px'')"
    "declaration_of ''\<newline>'' = None"
    by (simp_all add: declaration_of_def trim_def is_space_def)
  show ?thesis
    unfolding declarations_def split_on_SessionSettingsBar [OF g(3) w(4)]
    by (simp only: List.map_filter_simps b k l option.case)
qed

lemma style_render:
  "palette_ok colors \<Longrightarrow>
   style (render (SessionSettingsBar colors) kids) =
     [(''color'', ''white''), (''display'', ''flex''), (''position'', ''relative''),
      (''border-bottom'', ''1px solid '' @ Gray200 colors),
      (''background'', White colors),
      (''align-items'', ''center''), (''height'', ''47px''), (''padding'', ''8px 10px'')]"
  by (simp add: render_def declarations_SessionSettingsBar)

lemma palette_ok_example: "palette_ok example_palette"
  by (simp add: palette_ok_def css_token_def is_space_def example_palette_def)

text \<open>
  The condition on the tokens is needed: the template splices a token into the style
  text as it is, so a token with a semicolon in it brings a declaration of its own.
\<close>

lemma declarations_unusable_token:
  "\<not> palette_ok \<lparr>Gray200 = ''red; height: 1px'', White = ''#FFFFFF''\<rparr> \<and>
   map fst (declarations (css_text (SessionSettingsBar
       \<lparr>Gray200 = ''red; height: 1px'', White = ''#FFFFFF''\<rparr>))) =
     [''color'', ''display'', ''position'', ''border-bottom'', ''height'', ''background'',
      ''align-items'', ''height'', ''padding'']"
  by code_simp

section \<open>The emitted rule and its declarations\<close>






















section \<open>The properties of the bar\<close>

text \<open>
  The properties below that speak of the declarations of a rendered element hold for
  the palettes whose two tokens are usable as values; every colour value (a
  hexadecimal colour, a colour name, a colour function) is one. Those that speak of
  the emitted rule hold for the palettes of hexadecimal colours, for both versions
  of the library.
\<close>







text \<open>
  \<^bold>\<open>C3.\<close> Whatever the children of the rendered element, its declared height is 47
  pixels, and neither a minimal nor a maximal height is declared.
\<close>

theorem height_47:
  "palette_ok colors \<Longrightarrow>
   height_of (style (render (SessionSettingsBar colors) kids)) = Some 47 \<and>
   declared (style (render (SessionSettingsBar colors) kids)) ''min-height'' = None \<and>
   declared (style (render (SessionSettingsBar colors) kids)) ''max-height'' = None"
  by (simp add: style_render declared_def height_of_def px_length_def is_digit_def)

theorem height_47_witness:
  "palette_ok example_palette \<and>
   height_of (style (render (SessionSettingsBar example_palette) [''one'', ''two''])) = Some 47"
  using height_47 [of example_palette "[''one'', ''two'']"] palette_ok_example by simp

text \<open>
  \<^bold>\<open>C4.\<close> Whatever the children of the rendered element, its display is \<^verbatim>\<open>flex\<close>,
  its main axis is the row (no direction and no \<^verbatim>\<open>flex-flow\<close> is declared), and its
  items are centred on the cross axis.
\<close>

theorem flex_row_centered:
  "palette_ok colors \<Longrightarrow>
   declared (style (render (SessionSettingsBar colors) kids)) ''display'' = Some ''flex'' \<and>
   flex_direction (style (render (SessionSettingsBar colors) kids)) = ''row'' \<and>
   declared (style (render (SessionSettingsBar colors) kids)) ''flex-flow'' = None \<and>
   declared (style (render (SessionSettingsBar colors) kids)) ''align-items'' = Some ''center''"
  by (simp add: style_render declared_def flex_direction_def)

theorem flex_row_centered_witness:
  "palette_ok example_palette \<and>
   declared (style (render (SessionSettingsBar example_palette) ([] :: string list))) ''display'' =
     Some ''flex'' \<and>
   flex_direction (style (render (SessionSettingsBar example_palette) ([] :: string list))) = ''row'' \<and>
   declared (style (render (SessionSettingsBar example_palette) ([] :: string list))) ''align-items'' =
     Some ''center''"
  using flex_row_centered [of example_palette "[] :: string list"] palette_ok_example by simp

text \<open>
  \<^bold>\<open>C5.\<close> Whatever the children of the rendered element, its padding is 8 pixels at
  the top and at the bottom and 10 pixels on the left and on the right. The style
  has no input for the size of the viewport.
\<close>

theorem padding_8_10:
  "palette_ok colors \<Longrightarrow>
   padding_of (style (render (SessionSettingsBar colors) kids)) =
     Some \<lparr>box_top = 8, box_right = 10, box_bottom = 8, box_left = 10\<rparr>"
  by (simp add: style_render declared_def padding_of_def box_of_def words_of_def px_length_def is_digit_def)

theorem padding_8_10_witness:
  "palette_ok example_palette \<and>
   padding_of (style (render (SessionSettingsBar example_palette) [''child''])) =
     Some \<lparr>box_top = 8, box_right = 10, box_bottom = 8, box_left = 10\<rparr>"
  using padding_8_10 [of example_palette "[''child'']"] palette_ok_example by simp

text \<open>
  \<^bold>\<open>C6.\<close> The text colour declared for every rendered element is \<^verbatim>\<open>white\<close>.
\<close>

theorem color_white:
  "palette_ok colors \<Longrightarrow>
   declared (style (render (SessionSettingsBar colors) kids)) ''color'' = Some ''white''"
  by (simp add: style_render declared_def)

theorem color_white_witness:
  "palette_ok example_palette \<and>
   declared (style (render (SessionSettingsBar example_palette) [''child''])) ''color'' =
     Some ''white''"
  using color_white [of example_palette "[''child'']"] palette_ok_example by simp

text \<open>
  \<^bold>\<open>C7.\<close> The position declared for every rendered element is \<^verbatim>\<open>relative\<close>: the
  element is the positioning context of its absolutely positioned children, and no
  offset is declared that would move the element itself.
\<close>

theorem position_relative:
  "palette_ok colors \<Longrightarrow>
   declared (style (render (SessionSettingsBar colors) kids)) ''position'' = Some ''relative'' \<and>
   positioning_context (style (render (SessionSettingsBar colors) kids)) \<and>
   offsets (style (render (SessionSettingsBar colors) kids)) = [None, None, None, None, None]"
  by (simp add: style_render declared_def positioning_context_def offsets_def)

theorem position_relative_witness:
  "palette_ok example_palette \<and>
   declared (style (render (SessionSettingsBar example_palette) [''child''])) ''position'' =
     Some ''relative'' \<and>
   positioning_context (style (render (SessionSettingsBar example_palette) [''child''])) \<and>
   offsets (style (render (SessionSettingsBar example_palette) [''child''])) =
     [None, None, None, None, None]"
  using position_relative [of example_palette "[''child'']"] palette_ok_example by simp




end
